theory Spec2Isabelle
  imports Main "HOL-Library.Sublist"
begin

section \<open>JavaScript values\<close>

text \<open>
  The handlers move JSON values between the request, the renderer and the media store
  without inspecting them, so one datatype of JavaScript values serves for request
  bodies, collaborator results and thrown values. \<open>JError n\<close> is an \<open>Error\<close> object
  named \<open>n\<close>.
\<close>

datatype jsval =
    JUndefined
  | JNull
  | JBool bool
  | JNum int
  | JStr string
  | JArr "jsval list"
  | JObj "(string \<times> jsval) list"
  | JError string

text \<open>JavaScript truthiness, as used by \<^verbatim>\<open>resource.folder ? ... : null\<close>.\<close>

fun truthy :: "jsval \<Rightarrow> bool" where
  "truthy JUndefined = False"
| "truthy JNull = False"
| "truthy (JBool b) = b"
| "truthy (JNum n) = (n \<noteq> 0)"
| "truthy (JStr s) = (s \<noteq> [])"
| "truthy (JArr xs) = True"
| "truthy (JObj fs) = True"
| "truthy (JError n) = True"

text \<open>
  Reading one of the properties \<^verbatim>\<open>text\<close>, \<^verbatim>\<open>color\<close>, \<^verbatim>\<open>ruled\<close> of a value:
  an object yields the field or \<^verbatim>\<open>undefined\<close>; the other values have no such property.
\<close>

fun get_prop :: "jsval \<Rightarrow> string \<Rightarrow> jsval" where
  "get_prop (JObj fs) k = (case map_of fs k of None \<Rightarrow> JUndefined | Some v \<Rightarrow> v)"
| "get_prop v k = JUndefined"

text \<open>
  A value of \<^verbatim>\<open>req.query\<close> in Next.js is a string, an array of strings, or absent.
  The variable \<^verbatim>\<open>id\<close> of the catch-all route holds such a value throughout.
\<close>

datatype query_param = QUndefined | QString string | QArray "string list"

text \<open>\<^verbatim>\<open>!id\<close> holds for \<^verbatim>\<open>undefined\<close> and for the empty string; every array is truthy.\<close>

fun truthy_q :: "query_param \<Rightarrow> bool" where
  "truthy_q QUndefined = False"
| "truthy_q (QString s) = (s \<noteq> [])"
| "truthy_q (QArray segs) = True"

text \<open>\<^verbatim>\<open>Array.prototype.join\<close> on an array of strings.\<close>

fun join :: "string list \<Rightarrow> string \<Rightarrow> string" where
  "join [] sep = []"
| "join [x] sep = x"
| "join (x # y # ys) sep = x @ sep @ join (y # ys) sep"

section \<open>Collaborators and their calls\<close>

record hw_options =
  ruled :: jsval
  outputType :: string
  inkColor :: jsval

record resources_options =
  ro_type :: string
  ro_prefix :: string
  ro_resource_type :: string

text \<open>\<open>uo_folder = None\<close> is the \<^verbatim>\<open>null\<close> folder.\<close>

record upload_options =
  uo_folder :: "string option"
  uo_public_id :: jsval
  uo_resource_type :: string

record delete_options =
  do_resource_type :: string

text \<open>The argument object of \<^verbatim>\<open>handleCloudinaryUpload\<close>.\<close>

record upload_resource =
  file_data :: jsval
  publicId :: jsval
  folder :: jsval

text \<open>
  The renderer and the three remote operations are outside the repository. Each either
  throws a value (\<open>Inl\<close>) or returns one (\<open>Inr\<close>); the renderer, with an image output
  type, returns an array of pages.
\<close>

record env =
  handwritten :: "jsval \<Rightarrow> hw_options \<Rightarrow> jsval + jsval list"
  api_resources :: "resources_options \<Rightarrow> jsval + jsval"
  uploader_upload :: "jsval \<Rightarrow> upload_options \<Rightarrow> jsval + jsval"
  api_delete_resources :: "query_param list \<Rightarrow> delete_options \<Rightarrow> jsval + jsval"

text \<open>Every function returns, next to its result, the calls it made, in order.\<close>

datatype call =
    Render jsval hw_options
  | ApiResources resources_options
  | Upload jsval upload_options
  | DeleteResources "query_param list" delete_options
  | ConsoleError jsval

section \<open>lib/cloudinary.js\<close>

definition CLOUDINARY_FOLDER_NAME :: string where
  "CLOUDINARY_FOLDER_NAME = ''text-to-handwriting/''"

definition handleGetCloudinaryUploads :: "env \<Rightarrow> (jsval + jsval) \<times> call list" where
  "handleGetCloudinaryUploads e =
     (let opts = \<lparr>ro_type = ''upload'', ro_prefix = CLOUDINARY_FOLDER_NAME,
                  ro_resource_type = ''image''\<rparr>
      in (api_resources e opts, [ApiResources opts]))"

definition handleCloudinaryUpload :: "env \<Rightarrow> upload_resource \<Rightarrow> (jsval + jsval) \<times> call list" where
  "handleCloudinaryUpload e resource =
     (let opts = \<lparr>uo_folder = (if truthy (folder resource) then Some CLOUDINARY_FOLDER_NAME else None),
                  uo_public_id = publicId resource,
                  uo_resource_type = ''auto''\<rparr>
      in (uploader_upload e (file_data resource) opts, [Upload (file_data resource) opts]))"

definition handleCloudinaryDelete :: "env \<Rightarrow> query_param list \<Rightarrow> (jsval + jsval) \<times> call list" where
  "handleCloudinaryDelete e ids =
     (let opts = \<lparr>do_resource_type = ''image''\<rparr>
      in (api_delete_resources e ids opts, [DeleteResources ids opts]))"

section \<open>pages/api/images/index.js\<close>

record request =
  req_method :: string
  query_id :: query_param
  body :: jsval

record response =
  status :: nat
  json :: "(string \<times> jsval) list"

definition handleGetRequest :: "env \<Rightarrow> (jsval + jsval) \<times> call list" where
  "handleGetRequest e = handleGetCloudinaryUploads e"

text \<open>
  Destructuring \<^verbatim>\<open>undefined\<close> or \<^verbatim>\<open>null\<close> throws a \<^verbatim>\<open>TypeError\<close>. The array
  pattern \<^verbatim>\<open>[base64Image]\<close> binds the first page, or \<^verbatim>\<open>undefined\<close> for an empty array.
\<close>

definition handlePostRequest :: "env \<Rightarrow> jsval \<Rightarrow> (jsval + jsval) \<times> call list" where
  "handlePostRequest e b =
     (if b = JUndefined \<or> b = JNull then (Inl (JError ''TypeError''), [])
      else
        let text = get_prop b ''text'';
            color = get_prop b ''color'';
            opts = \<lparr>ruled = get_prop b ''ruled'', outputType = ''png/b64'', inkColor = color\<rparr>
        in (case handwritten e text opts of
              Inl err \<Rightarrow> (Inl err, [Render text opts])
            | Inr pages \<Rightarrow>
                let base64Image = (case pages of [] \<Rightarrow> JUndefined | p # _ \<Rightarrow> p);
                    (uploadResponse, tr) =
                      handleCloudinaryUpload e
                        \<lparr>file_data = base64Image, publicId = JUndefined, folder = JBool True\<rparr>
                in (uploadResponse, Render text opts # tr)))"

text \<open>
  Each \<^verbatim>\<open>try\<close> block awaits one operation and answers with its result; the
  \<^verbatim>\<open>catch\<close> block logs the thrown value and answers 400 with it.
\<close>

definition handler :: "env \<Rightarrow> request \<Rightarrow> response \<times> call list" where
  "handler e req =
     (if req_method req = ''GET'' then
        (case handleGetRequest e of
           (Inr result, tr) \<Rightarrow>
             (\<lparr>status = 200, json = [(''message'', JStr ''Success''), (''result'', result)]\<rparr>, tr)
         | (Inl error, tr) \<Rightarrow>
             (\<lparr>status = 400, json = [(''message'', JStr ''Error''), (''error'', error)]\<rparr>,
              tr @ [ConsoleError error]))
      else if req_method req = ''POST'' then
        (case handlePostRequest e (body req) of
           (Inr result, tr) \<Rightarrow>
             (\<lparr>status = 201, json = [(''message'', JStr ''Success''), (''result'', result)]\<rparr>, tr)
         | (Inl error, tr) \<Rightarrow>
             (\<lparr>status = 400, json = [(''message'', JStr ''Error''), (''error'', error)]\<rparr>,
              tr @ [ConsoleError error]))
      else (\<lparr>status = 405, json = [(''message'', JStr ''Method not allowed'')]\<rparr>, []))"

section \<open>pages/api/images/[...id].js\<close>

definition handleDeleteRequest :: "env \<Rightarrow> query_param \<Rightarrow> (jsval + jsval) \<times> call list" where
  "handleDeleteRequest e i = handleCloudinaryDelete e [i]"

text \<open>
  The identifier check comes first; then an array value is replaced by its segments joined
  with a slash; then the method is dispatched.
\<close>

definition handler_id :: "env \<Rightarrow> request \<Rightarrow> response \<times> call list" where
  "handler_id e req =
     (let i = query_id req in
      if \<not> truthy_q i then (\<lparr>status = 400, json = [(''error'', JStr ''Missing id'')]\<rparr>, [])
      else
        let i = (case i of QArray segs \<Rightarrow> QString (join segs ''/'') | _ \<Rightarrow> i)
        in if req_method req = ''DELETE'' then
             (case handleDeleteRequest e i of
                (Inr result, tr) \<Rightarrow>
                  (\<lparr>status = 200, json = [(''message'', JStr ''Success''), (''result'', result)]\<rparr>, tr)
              | (Inl error, tr) \<Rightarrow>
                  (\<lparr>status = 400, json = [(''message'', JStr ''Error''), (''error'', error)]\<rparr>,
                   tr @ [ConsoleError error]))
           else (\<lparr>status = 405, json = [(''message'', JStr ''Method not allowed'')]\<rparr>, []))"

section \<open>Observations on responses and calls\<close>

text \<open>The body \<^verbatim>\<open>{message: "Error", error}\<close>: exactly these two fields, the first one "Error".\<close>

definition is_error_body :: "(string \<times> jsval) list \<Rightarrow> bool" where
  "is_error_body b = (map fst b = [''message'', ''error''] \<and> map_of b ''message'' = Some (JStr ''Error''))"

text \<open>The calls that leave the process: everything but the console log.\<close>

fun is_console :: "call \<Rightarrow> bool" where
  "is_console (ConsoleError v) = True"
| "is_console c = False"

definition remote_calls :: "call list \<Rightarrow> call list" where
  "remote_calls tr = filter (\<lambda>c. \<not> is_console c) tr"

fun is_upload :: "call \<Rightarrow> bool" where
  "is_upload (Upload f opts) = True"
| "is_upload c = False"

fun is_delete :: "call \<Rightarrow> bool" where
  "is_delete (DeleteResources ids opts) = True"
| "is_delete c = False"

text \<open>A call is within the namespace unless it is an upload to some other folder.\<close>

fun upload_in_namespace :: "call \<Rightarrow> bool" where
  "upload_in_namespace (Upload f opts) = (uo_folder opts = Some CLOUDINARY_FOLDER_NAME)"
| "upload_in_namespace c = True"

section \<open>Sample collaborators and requests\<close>

text \<open>A renderer that produces two pages and a store that accepts every call.\<close>

definition env_ok :: env where
  "env_ok =
     \<lparr>handwritten = (\<lambda>t opts. Inr [JStr ''page1'', JStr ''page2'']),
      api_resources = (\<lambda>opts. Inr (JObj [(''resources'', JArr [])])),
      uploader_upload = (\<lambda>f opts. Inr (JObj [(''public_id'', JStr ''text-to-handwriting/abc'')])),
      api_delete_resources = (\<lambda>ids opts. Inr (JObj [(''deleted'', JObj [])]))\<rparr>"

text \<open>Collaborators that all throw.\<close>

definition env_fail :: env where
  "env_fail =
     \<lparr>handwritten = (\<lambda>t opts. Inl (JError ''RenderError'')),
      api_resources = (\<lambda>opts. Inl (JError ''RemoteUnavailable'')),
      uploader_upload = (\<lambda>f opts. Inl (JError ''RemoteUnavailable'')),
      api_delete_resources = (\<lambda>ids opts. Inl (JError ''RemoteUnavailable''))\<rparr>"

text \<open>A store holding the given public ids, whose listing honours the requested prefix.\<close>

definition env_store :: "string list \<Rightarrow> env" where
  "env_store ids =
     env_ok\<lparr>api_resources :=
       (\<lambda>opts. Inr (JObj [(''resources'', JArr (map JStr (filter (prefix (ro_prefix opts)) ids)))]))\<rparr>"

definition req_get :: request where
  "req_get = \<lparr>req_method = ''GET'', query_id = QUndefined, body = JUndefined\<rparr>"

definition req_put :: request where
  "req_put = \<lparr>req_method = ''PUT'', query_id = QUndefined, body = JUndefined\<rparr>"

text \<open>A POST whose color is none of black, red and blue.\<close>

definition req_post_green :: request where
  "req_post_green =
     \<lparr>req_method = ''POST'', query_id = QUndefined,
      body = JObj [(''text'', JStr ''hello''), (''color'', JStr ''green''), (''ruled'', JBool True)]\<rparr>"

definition req_post_blue :: request where
  "req_post_blue =
     \<lparr>req_method = ''POST'', query_id = QUndefined,
      body = JObj [(''text'', JStr ''hello''), (''color'', JStr ''blue''), (''ruled'', JBool False)]\<rparr>"

text \<open>DELETE /api/images/text-to-handwriting/abc.\<close>

definition req_delete :: request where
  "req_delete =
     \<lparr>req_method = ''DELETE'', query_id = QArray [''text-to-handwriting'', ''abc''], body = JUndefined\<rparr>"

text \<open>DELETE /api/images/a/b/c and DELETE /api/images/abc.\<close>

definition req_delete_nested :: request where
  "req_delete_nested =
     \<lparr>req_method = ''DELETE'', query_id = QArray [''a'', ''b'', ''c''], body = JUndefined\<rparr>"

definition req_delete_single :: request where
  "req_delete_single =
     \<lparr>req_method = ''DELETE'', query_id = QArray [''abc''], body = JUndefined\<rparr>"

definition req_delete_noid :: request where
  "req_delete_noid = \<lparr>req_method = ''DELETE'', query_id = QUndefined, body = JUndefined\<rparr>"

definition req_put_noid :: request where
  "req_put_noid = \<lparr>req_method = ''PUT'', query_id = QString [], body = JUndefined\<rparr>"

definition req_get_id :: request where
  "req_get_id = \<lparr>req_method = ''GET'', query_id = QString ''abc'', body = JUndefined\<rparr>"

lemmas code_defs =
  handler_def handler_id_def handleGetRequest_def handlePostRequest_def handleDeleteRequest_def
  handleGetCloudinaryUploads_def handleCloudinaryUpload_def handleCloudinaryDelete_def
  CLOUDINARY_FOLDER_NAME_def Let_def

lemmas sample_defs =
  env_ok_def env_fail_def env_store_def req_get_def req_put_def req_post_green_def
  req_post_blue_def req_delete_def req_delete_noid_def req_put_noid_def req_get_id_def

section \<open>Unsupported methods\<close>

text \<open>
  C4. A request to /api/images whose method is neither GET nor POST is answered with
  status 405, and so is a request to /api/images/:id that carries an identifier and
  whose method is not DELETE.
\<close>

theorem unsupported_method_405:
  "(req_method req \<noteq> ''GET'' \<longrightarrow> req_method req \<noteq> ''POST'' \<longrightarrow> status (fst (handler e req)) = 405) \<and>
   (truthy_q (query_id req) \<longrightarrow> req_method req \<noteq> ''DELETE'' \<longrightarrow> status (fst (handler_id e req)) = 405)"
  by (simp add: handler_def handler_id_def Let_def)

theorem unsupported_method_405_witness:
  "req_method req_put \<noteq> ''GET'' \<and> req_method req_put \<noteq> ''POST'' \<and>
   status (fst (handler env_ok req_put)) = 405 \<and>
   truthy_q (query_id req_get_id) \<and> req_method req_get_id \<noteq> ''DELETE'' \<and>
   status (fst (handler_id env_ok req_get_id)) = 405"
  using unsupported_method_405 [of req_put env_ok] unsupported_method_405 [of req_get_id env_ok]
  by (simp add: req_put_def req_get_id_def)

section \<open>Input validation\<close>

text \<open>
  C1 as stated: a POST whose color is outside black, red and blue is rejected before the
  renderer is invoked. The handler has no such check. With the color "green" the renderer
  is called with that ink color, its first page is uploaded and the answer is 201.
\<close>

theorem invalid_color_is_rendered_counterexample:
  "get_prop (body req_post_green) ''color'' \<notin> {JStr ''black'', JStr ''red'', JStr ''blue''} \<and>
   snd (handler env_ok req_post_green) =
     [Render (JStr ''hello'')
        \<lparr>ruled = JBool True, outputType = ''png/b64'', inkColor = JStr ''green''\<rparr>,
      Upload (JStr ''page1'')
        \<lparr>uo_folder = Some ''text-to-handwriting/'', uo_public_id = JUndefined,
         uo_resource_type = ''auto''\<rparr>] \<and>
   status (fst (handler env_ok req_post_green)) = 201"
  by (simp add: code_defs env_ok_def req_post_green_def)

text \<open>
  C1, amended. The POST handler validates nothing itself: whenever the body can be
  destructured, the first call is to the renderer, with the body's text, ruled and color
  passed through unchanged and the output type "png/b64". The answer is 400 when the
  renderer or the upload throws and 201 otherwise.
\<close>

theorem post_renders_without_validation:
  assumes "req_method req = ''POST''" and "body req \<noteq> JUndefined" and "body req \<noteq> JNull"
  shows "(\<exists>rest. snd (handler e req) =
            Render (get_prop (body req) ''text'')
              \<lparr>ruled = get_prop (body req) ''ruled'', outputType = ''png/b64'',
               inkColor = get_prop (body req) ''color''\<rparr> # rest) \<and>
         status (fst (handler e req)) =
           (case handwritten e (get_prop (body req) ''text'')
                   \<lparr>ruled = get_prop (body req) ''ruled'', outputType = ''png/b64'',
                    inkColor = get_prop (body req) ''color''\<rparr> of
              Inl err \<Rightarrow> 400
            | Inr pages \<Rightarrow>
                (case uploader_upload e (case pages of [] \<Rightarrow> JUndefined | p # _ \<Rightarrow> p)
                        \<lparr>uo_folder = Some ''text-to-handwriting/'', uo_public_id = JUndefined,
                         uo_resource_type = ''auto''\<rparr> of
                   Inl err \<Rightarrow> 400
                 | Inr r \<Rightarrow> 201))"
  using assms by (simp add: code_defs split: sum.splits)

theorem post_renders_without_validation_witness:
  "req_method req_post_green = ''POST'' \<and> body req_post_green \<noteq> JUndefined \<and>
   body req_post_green \<noteq> JNull \<and>
   (\<exists>rest. snd (handler env_fail req_post_green) =
      Render (JStr ''hello'')
        \<lparr>ruled = JBool True, outputType = ''png/b64'', inkColor = JStr ''green''\<rparr> # rest) \<and>
   status (fst (handler env_fail req_post_green)) = 400"
  using post_renders_without_validation [of req_post_green env_fail]
  by (simp add: env_fail_def req_post_green_def)

section \<open>Bodies of error responses\<close>

text \<open>
  C2 as stated: every response outside the 2xx range has the body
  \<^verbatim>\<open>{message: "Error", error}\<close>. The 405 answer to a PUT on /api/images has the
  single field \<^verbatim>\<open>message\<close>, with the value "Method not allowed".
\<close>

theorem method_not_allowed_body_counterexample:
  "status (fst (handler env_ok req_put)) = 405 \<and>
   json (fst (handler env_ok req_put)) = [(''message'', JStr ''Method not allowed'')] \<and>
   \<not> is_error_body (json (fst (handler env_ok req_put)))"
  by (simp add: code_defs req_put_def is_error_body_def)

text \<open>
  C2, amended. A response outside the 2xx range is one of three: status 400 with the body
  \<^verbatim>\<open>{message: "Error", error}\<close> (a caught failure), status 405 with the body
  \<^verbatim>\<open>{message: "Method not allowed"}\<close>, or, on /api/images/:id only, status 400 with
  the body \<^verbatim>\<open>{error: "Missing id"}\<close>.
\<close>

theorem non_2xx_bodies:
  "(status (fst (handler e req)) div 100 \<noteq> 2 \<longrightarrow>
      status (fst (handler e req)) = 400 \<and> is_error_body (json (fst (handler e req))) \<or>
      fst (handler e req) = \<lparr>status = 405, json = [(''message'', JStr ''Method not allowed'')]\<rparr>) \<and>
   (status (fst (handler_id e req)) div 100 \<noteq> 2 \<longrightarrow>
      status (fst (handler_id e req)) = 400 \<and> is_error_body (json (fst (handler_id e req))) \<or>
      fst (handler_id e req) = \<lparr>status = 405, json = [(''message'', JStr ''Method not allowed'')]\<rparr> \<or>
      fst (handler_id e req) = \<lparr>status = 400, json = [(''error'', JStr ''Missing id'')]\<rparr>)"
  by (simp add: handler_def handler_id_def Let_def is_error_body_def split: prod.splits sum.splits)

theorem non_2xx_bodies_witness:
  "status (fst (handler env_fail req_get)) div 100 \<noteq> 2 \<and>
   status (fst (handler env_fail req_get)) = 400 \<and>
   is_error_body (json (fst (handler env_fail req_get))) \<and>
   status (fst (handler_id env_fail req_delete_noid)) div 100 \<noteq> 2 \<and>
   fst (handler_id env_fail req_delete_noid) = \<lparr>status = 400, json = [(''error'', JStr ''Missing id'')]\<rparr>"
  using non_2xx_bodies [of env_fail req_get] non_2xx_bodies [of env_fail req_delete_noid]
  by (simp add: code_defs env_fail_def req_get_def req_delete_noid_def is_error_body_def)

section \<open>Failures of the collaborators\<close>

text \<open>
  C3. When the listing throws on GET, when the renderer or the upload throws on POST, or
  when the deletion throws on a DELETE that carries an identifier, the handler answers
  with status 400 and the body \<^verbatim>\<open>{message: "Error", error}\<close> holding the thrown
  value. The handlers are total: no thrown value leaves them.
\<close>

theorem collaborator_failure_is_400:
  "(req_method req = ''GET'' \<longrightarrow>
      api_resources e \<lparr>ro_type = ''upload'', ro_prefix = ''text-to-handwriting/'',
                       ro_resource_type = ''image''\<rparr> = Inl err \<longrightarrow>
      fst (handler e req) = \<lparr>status = 400, json = [(''message'', JStr ''Error''), (''error'', err)]\<rparr>) \<and>
   (req_method req = ''POST'' \<longrightarrow> body req \<noteq> JUndefined \<longrightarrow> body req \<noteq> JNull \<longrightarrow>
      handwritten e (get_prop (body req) ''text'')
        \<lparr>ruled = get_prop (body req) ''ruled'', outputType = ''png/b64'',
         inkColor = get_prop (body req) ''color''\<rparr> = Inl err \<longrightarrow>
      fst (handler e req) = \<lparr>status = 400, json = [(''message'', JStr ''Error''), (''error'', err)]\<rparr>) \<and>
   (req_method req = ''POST'' \<longrightarrow> body req \<noteq> JUndefined \<longrightarrow> body req \<noteq> JNull \<longrightarrow>
      handwritten e (get_prop (body req) ''text'')
        \<lparr>ruled = get_prop (body req) ''ruled'', outputType = ''png/b64'',
         inkColor = get_prop (body req) ''color''\<rparr> = Inr pages \<longrightarrow>
      uploader_upload e (case pages of [] \<Rightarrow> JUndefined | p # _ \<Rightarrow> p)
        \<lparr>uo_folder = Some ''text-to-handwriting/'', uo_public_id = JUndefined,
         uo_resource_type = ''auto''\<rparr> = Inl err \<longrightarrow>
      fst (handler e req) = \<lparr>status = 400, json = [(''message'', JStr ''Error''), (''error'', err)]\<rparr>) \<and>
   (req_method req = ''DELETE'' \<longrightarrow> truthy_q (query_id req) \<longrightarrow>
      api_delete_resources e
        [case query_id req of QArray segs \<Rightarrow> QString (join segs ''/'') | _ \<Rightarrow> query_id req]
        \<lparr>do_resource_type = ''image''\<rparr> = Inl err \<longrightarrow>
      fst (handler_id e req) = \<lparr>status = 400, json = [(''message'', JStr ''Error''), (''error'', err)]\<rparr>)"
  by (simp add: code_defs split: query_param.splits)

theorem collaborator_failure_is_400_witness:
  "fst (handler env_fail req_get) =
     \<lparr>status = 400, json = [(''message'', JStr ''Error''), (''error'', JError ''RemoteUnavailable'')]\<rparr> \<and>
   fst (handler env_fail req_post_blue) =
     \<lparr>status = 400, json = [(''message'', JStr ''Error''), (''error'', JError ''RenderError'')]\<rparr> \<and>
   fst (handler (env_ok\<lparr>uploader_upload := (\<lambda>f opts. Inl (JError ''RemoteUnavailable''))\<rparr>) req_post_blue) =
     \<lparr>status = 400, json = [(''message'', JStr ''Error''), (''error'', JError ''RemoteUnavailable'')]\<rparr> \<and>
   fst (handler_id env_fail req_delete) =
     \<lparr>status = 400, json = [(''message'', JStr ''Error''), (''error'', JError ''RemoteUnavailable'')]\<rparr>"
  using collaborator_failure_is_400
          [where req = req_get and e = env_fail and err = "JError ''RemoteUnavailable''"]
        collaborator_failure_is_400
          [where req = req_post_blue and e = env_fail and err = "JError ''RenderError''"]
        collaborator_failure_is_400
          [where req = req_post_blue
             and e = "env_ok\<lparr>uploader_upload := (\<lambda>f opts. Inl (JError ''RemoteUnavailable''))\<rparr>"
             and err = "JError ''RemoteUnavailable''" and pages = "[JStr ''page1'', JStr ''page2'']"]
        collaborator_failure_is_400
          [where req = req_delete and e = env_fail and err = "JError ''RemoteUnavailable''"]
  by (simp add: env_fail_def env_ok_def req_get_def req_post_blue_def req_delete_def)

section \<open>The identifier of a delete request\<close>

text \<open>
  What joining one or more segments computes, stated without \<open>join\<close>: the first
  segment followed by every further one behind a separator.
\<close>

lemma join_Cons: "join (s # ss) sep = s @ concat (map (\<lambda>x. sep @ x) ss)"
proof (induction ss arbitrary: s)
  case Nil
  show ?case by simp
next
  case (Cons y ys)
  have "join (s # y # ys) sep = s @ sep @ join (y # ys) sep"
    by simp
  also have "\<dots> = s @ sep @ y @ concat (map (\<lambda>x. sep @ x) ys)"
    by (simp only: Cons.IH)
  finally show ?case
    by simp
qed

text \<open>The joined identifier has one separator between neighbours, so its length is fixed.\<close>

lemma length_join:
  "length (join (s # ss) sep) = length s + sum_list (map length ss) + length ss * length sep"
  by (induction ss arbitrary: s) (simp_all add: join_Cons)

text \<open>
  C5. A DELETE request to /api/images/:id whose identifier is missing, that is absent or
  the empty string, is answered with status 400, and the handler makes no call at all:
  the remote delete operation is not invoked.
\<close>

theorem delete_missing_id_400:
  assumes "req_method req = ''DELETE''"
    and "query_id req = QUndefined \<or> query_id req = QString []"
  shows "status (fst (handler_id e req)) = 400 \<and>
         filter is_delete (snd (handler_id e req)) = [] \<and>
         snd (handler_id e req) = []"
  using assms by (auto simp: handler_id_def)

theorem delete_missing_id_400_witness:
  "req_method req_delete_noid = ''DELETE'' \<and> query_id req_delete_noid = QUndefined \<and>
   status (fst (handler_id env_ok req_delete_noid)) = 400 \<and>
   snd (handler_id env_ok req_delete_noid) = []"
  using delete_missing_id_400 [of req_delete_noid env_ok]
  by (simp add: req_delete_noid_def)

text \<open>
  C6. For a DELETE request whose path after /api/images/ has one or more segments, the
  identifier is the segments joined with "/": the first segment, followed by each
  further segment with a "/" before it. The only remote call is one delete-by-ids call
  whose list of ids is the singleton of that identifier.
\<close>

theorem delete_joins_segments:
  assumes "req_method req = ''DELETE''" and "query_id req = QArray (s # ss)"
  shows "remote_calls (snd (handler_id e req)) =
           [DeleteResources [QString (s @ concat (map (\<lambda>x. ''/'' @ x) ss))]
              \<lparr>do_resource_type = ''image''\<rparr>]"
proof -
  have ident: "join (s # ss) ''/'' = s @ concat (map (\<lambda>x. ''/'' @ x) ss)"
    by (rule join_Cons)
  have "remote_calls (snd (handler_id e req)) =
          [DeleteResources [QString (join (s # ss) ''/'')] \<lparr>do_resource_type = ''image''\<rparr>]"
    using assms by (simp add: code_defs remote_calls_def split: sum.splits)
  with ident show ?thesis
    by simp
qed

theorem delete_joins_segments_witness:
  "req_method req_delete = ''DELETE'' \<and>
   query_id req_delete = QArray [''text-to-handwriting'', ''abc''] \<and>
   remote_calls (snd (handler_id env_ok req_delete)) =
     [DeleteResources [QString ''text-to-handwriting/abc''] \<lparr>do_resource_type = ''image''\<rparr>] \<and>
   req_method req_delete_nested = ''DELETE'' \<and>
   query_id req_delete_nested = QArray [''a'', ''b'', ''c''] \<and>
   remote_calls (snd (handler_id env_fail req_delete_nested)) =
     [DeleteResources [QString ''a/b/c''] \<lparr>do_resource_type = ''image''\<rparr>] \<and>
   req_method req_delete_single = ''DELETE'' \<and>
   query_id req_delete_single = QArray [''abc''] \<and>
   remote_calls (snd (handler_id env_ok req_delete_single)) =
     [DeleteResources [QString ''abc''] \<lparr>do_resource_type = ''image''\<rparr>]"
  using delete_joins_segments [of req_delete "''text-to-handwriting''" "[''abc'']" env_ok]
        delete_joins_segments [of req_delete_nested "''a''" "[''b'', ''c'']" env_fail]
        delete_joins_segments [of req_delete_single "''abc''" "[]" env_ok]
  by (simp add: req_delete_def req_delete_nested_def req_delete_single_def)

text \<open>
  C9. On /api/images/:id the identifier check precedes the method dispatch: a request
  whose identifier is missing is answered with status 400 and the body
  \<^verbatim>\<open>{error: "Missing id"}\<close> whatever its method; an unsupported method with a missing
  identifier gets 400, not 405.
\<close>

theorem missing_id_before_method:
  assumes "query_id req = QUndefined \<or> query_id req = QString []"
  shows "fst (handler_id e req) = \<lparr>status = 400, json = [(''error'', JStr ''Missing id'')]\<rparr>"
  using assms by (auto simp: handler_id_def)

theorem missing_id_before_method_witness:
  "query_id req_put_noid = QString [] \<and> req_method req_put_noid = ''PUT'' \<and>
   fst (handler_id env_ok req_put_noid) = \<lparr>status = 400, json = [(''error'', JStr ''Missing id'')]\<rparr> \<and>
   status (fst (handler_id env_ok req_put_noid)) \<noteq> 405"
  using missing_id_before_method [of req_put_noid env_ok]
  by (simp add: req_put_noid_def)

section \<open>The namespace\<close>

text \<open>
  C7. Every upload made for a POST request carries the fixed folder "text-to-handwriting/"
  (the handler passes \<^verbatim>\<open>folder: true\<close> and the adapter maps a truthy folder to the
  constant); the only remote call of a GET request is a listing restricted to that same
  prefix; hence, when the store answers a listing with the resources under the requested
  prefix, \<open>listing p\<close>, the GET response carries exactly the resources under
  "text-to-handwriting/".
\<close>

theorem namespace_of_upload_and_list:
  "(req_method req = ''POST'' \<longrightarrow> list_all upload_in_namespace (snd (handler e req))) \<and>
   (folder resource = JBool True \<longrightarrow>
      list_all upload_in_namespace (snd (handleCloudinaryUpload e resource)) \<and>
      filter is_upload (snd (handleCloudinaryUpload e resource)) =
        [Upload (file_data resource)
           \<lparr>uo_folder = Some ''text-to-handwriting/'', uo_public_id = publicId resource,
            uo_resource_type = ''auto''\<rparr>]) \<and>
   CLOUDINARY_FOLDER_NAME = ''text-to-handwriting/'' \<and>
   (req_method req = ''GET'' \<longrightarrow>
      remote_calls (snd (handler e req)) =
        [ApiResources \<lparr>ro_type = ''upload'', ro_prefix = ''text-to-handwriting/'',
                       ro_resource_type = ''image''\<rparr>]) \<and>
   (req_method req = ''GET'' \<longrightarrow> (\<forall>opts. api_resources e opts = Inr (listing (ro_prefix opts))) \<longrightarrow>
      fst (handler e req) =
        \<lparr>status = 200,
         json = [(''message'', JStr ''Success''), (''result'', listing ''text-to-handwriting/'')]\<rparr>)"
proof -
  have upl: "req_method req = ''POST'' \<longrightarrow> list_all upload_in_namespace (snd (handler e req))"
    by (simp add: code_defs split: sum.splits list.splits)
  have adapter: "folder resource = JBool True \<longrightarrow>
      list_all upload_in_namespace (snd (handleCloudinaryUpload e resource)) \<and>
      filter is_upload (snd (handleCloudinaryUpload e resource)) =
        [Upload (file_data resource)
           \<lparr>uo_folder = Some ''text-to-handwriting/'', uo_public_id = publicId resource,
            uo_resource_type = ''auto''\<rparr>]"
    by (simp add: code_defs)
  have name: "CLOUDINARY_FOLDER_NAME = ''text-to-handwriting/''"
    by (simp add: CLOUDINARY_FOLDER_NAME_def)
  have lst: "req_method req = ''GET'' \<longrightarrow>
      remote_calls (snd (handler e req)) =
        [ApiResources \<lparr>ro_type = ''upload'', ro_prefix = ''text-to-handwriting/'',
                       ro_resource_type = ''image''\<rparr>]"
    by (simp add: code_defs remote_calls_def split: sum.splits)
  have res: "req_method req = ''GET'' \<longrightarrow>
      (\<forall>opts. api_resources e opts = Inr (listing (ro_prefix opts))) \<longrightarrow>
      fst (handler e req) =
        \<lparr>status = 200,
         json = [(''message'', JStr ''Success''), (''result'', listing ''text-to-handwriting/'')]\<rparr>"
    by (simp add: code_defs)
  from upl adapter name lst res show ?thesis by blast
qed

theorem namespace_of_upload_and_list_witness:
  "req_method req_post_blue = ''POST'' \<and>
   list_all upload_in_namespace (snd (handler env_ok req_post_blue)) \<and>
   filter is_upload (snd (handler env_ok req_post_blue)) =
     [Upload (JStr ''page1'')
        \<lparr>uo_folder = Some ''text-to-handwriting/'', uo_public_id = JUndefined,
         uo_resource_type = ''auto''\<rparr>] \<and>
   req_method req_get = ''GET'' \<and>
   fst (handler (env_store [''text-to-handwriting/abc'', ''other/xyz'', ''text-to-handwriting/def'']) req_get) =
     \<lparr>status = 200,
      json = [(''message'', JStr ''Success''),
              (''result'', JObj [(''resources'',
                 JArr [JStr ''text-to-handwriting/abc'', JStr ''text-to-handwriting/def''])])]\<rparr>"
proof -
  let ?ids = "[''text-to-handwriting/abc'', ''other/xyz'', ''text-to-handwriting/def'']"
  let ?listing = "\<lambda>p. JObj [(''resources'', JArr (map JStr (filter (prefix p) ?ids)))]"
  have post: "req_method req_post_blue = ''POST''"
    by (simp add: req_post_blue_def)
  have get: "req_method req_get = ''GET''"
    by (simp add: req_get_def)
  have store: "\<forall>opts. api_resources (env_store ?ids) opts = Inr (?listing (ro_prefix opts))"
    by (simp add: env_store_def env_ok_def)
  have listed: "?listing ''text-to-handwriting/'' =
      JObj [(''resources'', JArr [JStr ''text-to-handwriting/abc'', JStr ''text-to-handwriting/def''])]"
    by simp
  have one: "filter is_upload (snd (handler env_ok req_post_blue)) =
     [Upload (JStr ''page1'')
        \<lparr>uo_folder = Some ''text-to-handwriting/'', uo_public_id = JUndefined,
         uo_resource_type = ''auto''\<rparr>]"
    by (simp add: code_defs env_ok_def req_post_blue_def)
  from post namespace_of_upload_and_list [where req = req_post_blue and e = env_ok]
  have upl: "list_all upload_in_namespace (snd (handler env_ok req_post_blue))"
    by blast
  from get store
    namespace_of_upload_and_list [where req = req_get and e = "env_store ?ids" and listing = ?listing]
  have "fst (handler (env_store ?ids) req_get) =
      \<lparr>status = 200,
       json = [(''message'', JStr ''Success''), (''result'', ?listing ''text-to-handwriting/'')]\<rparr>"
    by blast
  with listed post get upl one show ?thesis
    by simp
qed

section \<open>Pages of the renderer\<close>

text \<open>
  C8. When the renderer returns an array of pages for a POST request, the handler uploads
  its first element and nothing else: the remote calls are the rendering and one upload
  of the first page, and no later page is passed to the store.
\<close>

theorem only_first_page_uploaded:
  assumes "req_method req = ''POST''" and "body req \<noteq> JUndefined" and "body req \<noteq> JNull"
    and "handwritten e (get_prop (body req) ''text'')
           \<lparr>ruled = get_prop (body req) ''ruled'', outputType = ''png/b64'',
            inkColor = get_prop (body req) ''color''\<rparr> = Inr (p # ps)"
  shows "filter is_upload (snd (handler e req)) =
           [Upload p \<lparr>uo_folder = Some ''text-to-handwriting/'', uo_public_id = JUndefined,
                      uo_resource_type = ''auto''\<rparr>] \<and>
         remote_calls (snd (handler e req)) =
           [Render (get_prop (body req) ''text'')
              \<lparr>ruled = get_prop (body req) ''ruled'', outputType = ''png/b64'',
               inkColor = get_prop (body req) ''color''\<rparr>,
            Upload p \<lparr>uo_folder = Some ''text-to-handwriting/'', uo_public_id = JUndefined,
                      uo_resource_type = ''auto''\<rparr>]"
  using assms by (simp add: code_defs remote_calls_def split: sum.splits)

theorem only_first_page_uploaded_witness:
  "req_method req_post_blue = ''POST'' \<and> body req_post_blue \<noteq> JUndefined \<and> body req_post_blue \<noteq> JNull \<and>
   handwritten env_ok (JStr ''hello'')
     \<lparr>ruled = JBool False, outputType = ''png/b64'', inkColor = JStr ''blue''\<rparr> =
     Inr [JStr ''page1'', JStr ''page2''] \<and>
   filter is_upload (snd (handler env_ok req_post_blue)) =
     [Upload (JStr ''page1'')
        \<lparr>uo_folder = Some ''text-to-handwriting/'', uo_public_id = JUndefined,
         uo_resource_type = ''auto''\<rparr>]"
  using only_first_page_uploaded [of req_post_blue env_ok "JStr ''page1''" "[JStr ''page2'']"]
  by (simp add: env_ok_def req_post_blue_def)

section \<open>Successful responses\<close>

text \<open>
  C10. When the operation returns, the body is \<^verbatim>\<open>{message: "Success", result}\<close> with
  the returned value; the status is 200 for GET /api/images and for DELETE
  /api/images/:id, and 201 for POST /api/images.
\<close>

theorem success_status_and_body:
  "(req_method req = ''GET'' \<longrightarrow>
      api_resources e \<lparr>ro_type = ''upload'', ro_prefix = ''text-to-handwriting/'',
                       ro_resource_type = ''image''\<rparr> = Inr r \<longrightarrow>
      fst (handler e req) = \<lparr>status = 200, json = [(''message'', JStr ''Success''), (''result'', r)]\<rparr>) \<and>
   (req_method req = ''POST'' \<longrightarrow> body req \<noteq> JUndefined \<longrightarrow> body req \<noteq> JNull \<longrightarrow>
      handwritten e (get_prop (body req) ''text'')
        \<lparr>ruled = get_prop (body req) ''ruled'', outputType = ''png/b64'',
         inkColor = get_prop (body req) ''color''\<rparr> = Inr pages \<longrightarrow>
      uploader_upload e (case pages of [] \<Rightarrow> JUndefined | p # _ \<Rightarrow> p)
        \<lparr>uo_folder = Some ''text-to-handwriting/'', uo_public_id = JUndefined,
         uo_resource_type = ''auto''\<rparr> = Inr r \<longrightarrow>
      fst (handler e req) = \<lparr>status = 201, json = [(''message'', JStr ''Success''), (''result'', r)]\<rparr>) \<and>
   (req_method req = ''DELETE'' \<longrightarrow> truthy_q (query_id req) \<longrightarrow>
      api_delete_resources e
        [case query_id req of QArray segs \<Rightarrow> QString (join segs ''/'') | _ \<Rightarrow> query_id req]
        \<lparr>do_resource_type = ''image''\<rparr> = Inr r \<longrightarrow>
      fst (handler_id e req) = \<lparr>status = 200, json = [(''message'', JStr ''Success''), (''result'', r)]\<rparr>)"
  by (simp add: code_defs split: query_param.splits)

theorem success_status_and_body_witness:
  "fst (handler env_ok req_get) =
     \<lparr>status = 200, json = [(''message'', JStr ''Success''), (''result'', JObj [(''resources'', JArr [])])]\<rparr> \<and>
   fst (handler env_ok req_post_blue) =
     \<lparr>status = 201, json = [(''message'', JStr ''Success''),
        (''result'', JObj [(''public_id'', JStr ''text-to-handwriting/abc'')])]\<rparr> \<and>
   fst (handler_id env_ok req_delete) =
     \<lparr>status = 200, json = [(''message'', JStr ''Success''), (''result'', JObj [(''deleted'', JObj [])])]\<rparr>"
  using success_status_and_body
          [where req = req_get and e = env_ok and r = "JObj [(''resources'', JArr [])]"]
        success_status_and_body
          [where req = req_post_blue and e = env_ok and pages = "[JStr ''page1'', JStr ''page2'']"
             and r = "JObj [(''public_id'', JStr ''text-to-handwriting/abc'')]"]
        success_status_and_body
          [where req = req_delete and e = env_ok and r = "JObj [(''deleted'', JObj [])]"]
  by (simp add: env_ok_def req_get_def req_post_blue_def req_delete_def)

end
